theory Spec2Isabelle
  imports Main "HOL-Library.Word" "HOL-Library.Sublist"
begin

section \<open>JavaScript values, strings and numbers\<close>

text \<open>
  JavaScript strings that the code only compares or concatenates (the URLs of pages, the
  messages) are modelled as \<open>string\<close>. A string whose code units the code reads is
  modelled as the list of its UTF-16 code units: the crawled markdown, of which the code
  takes the \<open>.length\<close>, and the strings of a request body, which \<open>parseInt\<close> scans.
\<close>

type_synonym utf16 = "16 word list"

text \<open>The code units of a string of ASCII characters.\<close>

definition ascii :: "string \<Rightarrow> utf16" where
  "ascii s = map (\<lambda>c. of_nat (of_char c)) s"

text \<open>
  A value read from a JSON body. \<open>JNum w\<close> is the number \<open>sint w\<close>, an integer from
  \<open>-2^53\<close> to \<open>2^53 - 1\<close>: the integers that a JavaScript number holds exactly and that
  \<open>String\<close> prints in plain decimal digits. \<open>JOther\<close> is any other value, all of them
  truthy (an object, an array, a number with a fraction or of a larger magnitude), carried
  by the text that \<open>String\<close> gives for it: the number \<open>10^21\<close> is \<open>JOther\<close> of the text
  \<open>1e+21\<close>. A field that is absent reads as \<open>JUndefined\<close>.
\<close>

datatype jsval = JUndefined | JNull | JBool bool | JNum "54 word" | JStr utf16 | JOther utf16

fun truthy :: "jsval \<Rightarrow> bool" where
  "truthy JUndefined = False"
| "truthy JNull = False"
| "truthy (JBool b) = b"
| "truthy (JNum w) = (w \<noteq> 0)"
| "truthy (JStr s) = (s \<noteq> [])"
| "truthy (JOther r) = True"

text \<open>Decimal digits of a number, for the texts of the toasts and of \<open>String\<close>.\<close>

definition digit_char :: "nat \<Rightarrow> char" where
  "digit_char d = char_of (48 + d)"

fun show_nat :: "nat \<Rightarrow> string" where
  "show_nat n = (if n < 10 then [digit_char n] else show_nat (n div 10) @ [digit_char (n mod 10)])"

declare show_nat.simps [simp del]

definition show_int :: "int \<Rightarrow> string" where
  "show_int i = (if i < 0 then CHR ''-'' # show_nat (nat (- i)) else show_nat (nat i))"

text \<open>\<open>String(v)\<close>.\<close>

fun String_js :: "jsval \<Rightarrow> utf16" where
  "String_js JUndefined = ascii ''undefined''"
| "String_js JNull = ascii ''null''"
| "String_js (JBool b) = (if b then ascii ''true'' else ascii ''false'')"
| "String_js (JNum w) = ascii (show_int (sint w))"
| "String_js (JStr s) = s"
| "String_js (JOther r) = r"

text \<open>
  \<open>parseInt(s)\<close> with no radix, after ECMAScript: leading white space is dropped, one sign
  is read, a prefix \<open>0x\<close> or \<open>0X\<close> selects radix 16, the longest run of digits of the
  radix is the numeral, and no digit at all gives \<open>NaN\<close>, which is \<open>None\<close> here.
  White space is what ECMAScript trims: the tab, the line feed, the vertical tab, the form
  feed, the carriage return, the space, the no-break space, the other space separators
  of Unicode (\<open>U+1680\<close>, \<open>U+2000\<close> to \<open>U+200A\<close>, \<open>U+202F\<close>, \<open>U+205F\<close>, \<open>U+3000\<close>), the
  line and paragraph separators and the byte order mark. The value of a numeral is exact
  here; the code rounds a numeral beyond \<open>2^53\<close> to a number, which keeps its sign and stays
  beyond \<open>2^53\<close>, so that the clamped depth of line 15 is the same.
\<close>

definition isWhiteSpace :: "16 word \<Rightarrow> bool" where
  "isWhiteSpace c =
     ((0x0009 \<le> c \<and> c \<le> 0x000D) \<or> c = 0x0020 \<or> c = 0x00A0 \<or> c = 0x1680 \<or>
      (0x2000 \<le> c \<and> c \<le> 0x200A) \<or> c = 0x2028 \<or> c = 0x2029 \<or> c = 0x202F \<or>
      c = 0x205F \<or> c = 0x3000 \<or> c = 0xFEFF)"

definition digitVal :: "16 word \<Rightarrow> nat option" where
  "digitVal c =
     (let k = unat c in
      if 48 \<le> k \<and> k \<le> 57 then Some (k - 48)
      else if 97 \<le> k \<and> k \<le> 122 then Some (k - 87)
      else if 65 \<le> k \<and> k \<le> 90 then Some (k - 55)
      else None)"

definition radixDigit :: "nat \<Rightarrow> 16 word \<Rightarrow> bool" where
  "radixDigit R c = (case digitVal c of None \<Rightarrow> False | Some v \<Rightarrow> v < R)"

definition numeralValue :: "nat \<Rightarrow> utf16 \<Rightarrow> nat" where
  "numeralValue R Z = foldl (\<lambda>acc c. acc * R + (case digitVal c of None \<Rightarrow> 0 | Some v \<Rightarrow> v)) 0 Z"

definition parseInt :: "utf16 \<Rightarrow> int option" where
  "parseInt inputString =
     (let S = dropWhile isWhiteSpace inputString;
          sign = (if S \<noteq> [] \<and> hd S = 0x2D then - 1 else 1 :: int);
          S1 = (if S \<noteq> [] \<and> (hd S = 0x2B \<or> hd S = 0x2D) then tl S else S);
          hex = (take 2 S1 = [0x30, 0x78] \<or> take 2 S1 = [0x30, 0x58]);
          R = (if hex then 16 else 10);
          S2 = (if hex then drop 2 S1 else S1);
          Z = takeWhile (radixDigit R) S2
      in if Z = [] then None else Some (sign * int (numeralValue R Z)))"

text \<open>\<open>a || d\<close> on an optional string: an absent or empty \<open>a\<close> is falsy.\<close>

definition or_default :: "string option \<Rightarrow> string \<Rightarrow> string" where
  "or_default a d = (case a of None \<Rightarrow> d | Some s \<Rightarrow> if s = [] then d else s)"

text \<open>A thrown \<open>Error\<close>: its name, message and stack.\<close>

datatype js_error = JsError (err_name: string) (err_message: string) (err_stack: string)

text \<open>\<open>new Error(m)\<close>; the stack text is not modelled.\<close>

definition new_Error :: "string \<Rightarrow> js_error" where
  "new_Error m = JsError ''Error'' m []"

text \<open>
  What \<open>await fetch(...)\<close> followed by \<open>await response.json()\<close> can give: the fetch
  rejects, or there is a response with a status whose body either fails to parse (or is
  \<open>null\<close>, so that reading a field of it throws) or is an object.
\<close>

datatype 'b fetch_result = FetchThrows js_error | Response nat "js_error + 'b"

definition ok :: "nat \<Rightarrow> bool" where
  "ok st = (200 \<le> st \<and> st \<le> 299)"

section \<open>The page and link status model\<close>

text \<open>
  Modelled from the spec: the types \<open>DiscoveredPage\<close> and its links are declared in
  \<open>lib/types\<close>, which is not among the sources; section 3 of the specification gives
  their fields. A link's status is optional (the code reads \<open>link.status || 'pending'\<close>),
  and so is a page's list of links (the code reads \<open>page.internalLinks?.map\<close>).
  The link's field is named \<open>link_status\<close> here, a record field name being global.
\<close>

datatype status = NotStarted | Pending | Crawled | Error

record LinkRef =
  href :: string
  link_status :: "status option"

record DiscoveredPage =
  url :: string
  status :: status
  internalLinks :: "LinkRef list option"

text \<open>
  The updater that \<open>handleCrawlSelected\<close> passes to \<open>setDiscoveredPages\<close>. The source
  writes it out three times (lines 160-169, 214-223 and 249-258), with the literals
  \<open>'pending'\<close>, \<open>'crawled'\<close> and \<open>'error'\<close>; the literal is the parameter \<open>newStatus\<close>.
\<close>

definition markLink :: "string list \<Rightarrow> status \<Rightarrow> LinkRef \<Rightarrow> LinkRef" where
  "markLink selectedUrls newStatus link =
     link\<lparr>link_status :=
       Some (if href link \<in> set selectedUrls then newStatus
             else (case link_status link of None \<Rightarrow> Pending | Some s \<Rightarrow> s))\<rparr>"

definition markPage :: "string list \<Rightarrow> status \<Rightarrow> DiscoveredPage \<Rightarrow> DiscoveredPage" where
  "markPage selectedUrls newStatus page =
     page\<lparr>status := (if url page \<in> set selectedUrls then newStatus else status page),
          internalLinks := map_option (map (markLink selectedUrls newStatus)) (internalLinks page)\<rparr>"

definition markSelected :: "string list \<Rightarrow> status \<Rightarrow> DiscoveredPage list \<Rightarrow> DiscoveredPage list" where
  "markSelected selectedUrls newStatus pages = map (markPage selectedUrls newStatus) pages"

section \<open>The state of the \<open>Home\<close> component\<close>

datatype variant = Default | Destructive

record toast =
  title :: string
  description :: string
  variant :: "variant option"

record Stats =
  subdomainsParsed :: nat
  pagesCrawled :: nat
  dataExtracted :: string
  errorsEncountered :: nat

text \<open>
  The \<open>useState\<close> cells of \<open>Home\<close> (the cell \<open>url\<close> is \<open>home_url\<close> here), and the toasts
  emitted so far, oldest first. A handler reads the cells of the render it was created in
  and queues updates; with one handler running at a time that is state passing.
\<close>

record Home =
  home_url :: string
  isProcessing :: bool
  discoveredPages :: "DiscoveredPage list"
  isCrawling :: bool
  markdown :: utf16
  stats :: Stats
  toasts :: "toast list"

definition emit :: "toast \<Rightarrow> Home \<Rightarrow> Home" where
  "emit t st = st\<lparr>toasts := toasts st @ [t]\<rparr>"

section \<open>\<open>handleSubmit\<close>: discovery (src/app/page.tsx, lines 29-151)\<close>

text \<open>The JSON body of a discovery response, of the backend and of the route alike.\<close>

record discover_json =
  error :: "string option"
  details :: "string option"
  errorType :: "string option"
  pages :: "DiscoveredPage list option"
  message :: "string option"

text \<open>
  The body of the \<open>try\<close> block, lines 45-129: the state it leaves and the error it throws,
  if any. \<open>api\<close> answers the request to \<open>/api/discover\<close>.
\<close>

definition submitTry ::
  "(string \<Rightarrow> int \<Rightarrow> discover_json fetch_result) \<Rightarrow> Home \<Rightarrow> string \<Rightarrow> int \<Rightarrow> Home \<times> js_error option" where
  "submitTry api st submittedUrl depth =
     (case api submittedUrl depth of
        FetchThrows e \<Rightarrow> (st, Some e)
      | Response code js \<Rightarrow>
          (case js of
             Inl e \<Rightarrow> (st, Some e)
           | Inr data \<Rightarrow>
               if \<not> ok code then
                 (let errorMessage = or_default (error data) ''Failed to discover pages'';
                      errorType = or_default (errorType data) ''Unknown''
                  in (emit \<lparr>title = ''Error: '' @ errorType, description = errorMessage,
                             variant = Some Destructive\<rparr> st,
                      Some (new_Error errorMessage)))
               else
                 (let pgs = (case pages data of None \<Rightarrow> [] | Some ps \<Rightarrow> ps);
                      errorPages = filter (\<lambda>page. status page = Error) pgs;
                      st1 = (if length pgs > 0 then
                               (if length errorPages > 0 then
                                  emit \<lparr>title = ''Warning'',
                                        description = show_nat (length errorPages) @
                                          '' pages encountered errors during discovery'',
                                        variant = Some Default\<rparr> st
                                else st)
                             else
                               emit \<lparr>title = ''No Pages Found'',
                                     description = ''The crawler couldn't find any pages to process. This might be due to access restrictions or an invalid URL structure.'',
                                     variant = Some Default\<rparr> st);
                      st2 = st1\<lparr>discoveredPages := pgs,
                                stats := (stats st1)\<lparr>subdomainsParsed := length pgs,
                                                      errorsEncountered := length errorPages\<rparr>\<rparr>;
                      st3 = (if length pgs > 0 then
                               emit \<lparr>title = ''Pages Discovered'',
                                     description = ''Found '' @ show_nat (length pgs) @
                                       '' related pages at depth '' @ show_int depth,
                                     variant = None\<rparr> st2
                             else st2)
                  in (st3, None))))"

text \<open>The \<open>catch\<close> block, lines 130-147. Every thrown value here is an \<open>Error\<close>.\<close>

definition submitCatch :: "js_error \<Rightarrow> Home \<Rightarrow> Home" where
  "submitCatch e st =
     (if \<not> sublist ''Failed to discover pages'' (err_message e) then
        emit \<lparr>title = ''Error'',
              description = or_default (Some (err_message e))
                ''Failed to discover pages. Check the console for more details.'',
              variant = Some Destructive\<rparr> st
      else
        emit \<lparr>title = ''Error'',
              description = ''Failed to discover pages. Check the console for more details.'',
              variant = Some Destructive\<rparr> st)"

text \<open>
  \<open>validateUrl\<close> is imported from \<open>lib/crawl-service\<close>, which is not among the sources: it
  is a parameter.
\<close>

definition handleSubmit ::
  "(string \<Rightarrow> bool) \<Rightarrow> (string \<Rightarrow> int \<Rightarrow> discover_json fetch_result) \<Rightarrow> Home \<Rightarrow> string \<Rightarrow> int \<Rightarrow> Home" where
  "handleSubmit validateUrl api st submittedUrl depth =
     (if \<not> validateUrl submittedUrl then
        emit \<lparr>title = ''Invalid URL'',
              description = ''Please enter a valid URL including the protocol (http:// or https://)'',
              variant = Some Destructive\<rparr> st
      else
        (let st0 = st\<lparr>home_url := submittedUrl, isProcessing := True, markdown := [],
                      discoveredPages := []\<rparr>;
             st1 = (case submitTry api st0 submittedUrl depth of
                      (st', None) \<Rightarrow> st'
                    | (st', Some e) \<Rightarrow> submitCatch e st')
         in st1\<lparr>isProcessing := False\<rparr>))"

section \<open>\<open>handleCrawlSelected\<close>: the crawl (src/app/page.tsx, lines 153-267)\<close>

text \<open>The fields of the crawl response that the handler reads (\<open>links\<close> is only logged).\<close>

record crawl_json =
  crawl_markdown :: "utf16 option"
  crawl_error :: "string option"

text \<open>
  \<open>saveMarkdown\<close> (from \<open>lib/storage\<close>) and \<open>formatBytes\<close> (from \<open>lib/crawl-service\<close>)
  are not among the sources and are parameters; \<open>saveMarkdown\<close> gives the error it throws,
  if any.

  The inner \<open>try\<close> and \<open>catch\<close>, lines 202-236, and the toast that follows them, lines
  238-241. \<open>st\<close> is the state of the render the handler was created in, whose \<open>url\<close> cell
  the call of \<open>saveMarkdown\<close> reads; \<open>st1\<close> is the state the updates apply to.
\<close>

definition crawlPersist ::
  "(nat \<Rightarrow> string) \<Rightarrow> (string \<Rightarrow> utf16 \<Rightarrow> js_error option) \<Rightarrow> Home \<Rightarrow> Home \<Rightarrow>
   string list \<Rightarrow> DiscoveredPage list \<Rightarrow> utf16 \<Rightarrow> Home" where
  "crawlPersist formatBytes saveMarkdown st st1 selectedUrls selectedPages result_markdown =
     (let st2 =
        (case saveMarkdown (home_url st) result_markdown of
           None \<Rightarrow>
             emit \<lparr>title = ''Content Saved'',
                   description = ''Crawled content has been saved and can be loaded again later'',
                   variant = None\<rparr>
               (st1\<lparr>markdown := result_markdown,
                    stats := (stats st1)\<lparr>pagesCrawled := length selectedPages,
                                          dataExtracted := formatBytes (length result_markdown)\<rparr>,
                    discoveredPages := markSelected selectedUrls Crawled (discoveredPages st1)\<rparr>)
         | Some e \<Rightarrow>
             emit \<lparr>title = ''Error'',
                   description = ''Failed to save content for later use'',
                   variant = Some Destructive\<rparr> st1)
      in emit \<lparr>title = ''Crawling Complete'',
               description = ''All pages have been crawled and processed'',
               variant = None\<rparr> st2)"

text \<open>
  The body of the outer \<open>try\<close> block, lines 156-241: the state it leaves and the error it
  throws, if any. \<open>backend\<close> answers the request to \<open>/api/crawl\<close> from its payload.
\<close>

definition crawlTry ::
  "(nat \<Rightarrow> string) \<Rightarrow> (DiscoveredPage list \<Rightarrow> crawl_json fetch_result) \<Rightarrow>
   (string \<Rightarrow> utf16 \<Rightarrow> js_error option) \<Rightarrow> Home \<Rightarrow> string list \<Rightarrow> Home \<times> js_error option" where
  "crawlTry formatBytes backend saveMarkdown st selectedUrls =
     (let selectedPages = filter (\<lambda>page. url page \<in> set selectedUrls) (discoveredPages st);
          st1 = st\<lparr>discoveredPages := markSelected selectedUrls Pending (discoveredPages st)\<rparr>
      in case backend selectedPages of
           FetchThrows e \<Rightarrow> (st1, Some e)
         | Response code js \<Rightarrow>
             if \<not> ok code then
               (case js of
                  Inl e \<Rightarrow> (st1, Some e)
                | Inr errorData \<Rightarrow>
                    (st1, Some (new_Error (or_default (crawl_error errorData) ''Failed to crawl pages''))))
             else
               (case js of
                  Inl e \<Rightarrow> (st1, Some e)
                | Inr data \<Rightarrow>
                    (let result_markdown = (case crawl_markdown data of None \<Rightarrow> [] | Some m \<Rightarrow> m);
                         saved = crawlPersist formatBytes saveMarkdown st st1 selectedUrls
                                   selectedPages result_markdown
                     in case crawl_error data of
                          None \<Rightarrow> (saved, None)
                        | Some result_error \<Rightarrow>
                            if result_error \<noteq> [] then (st1, Some (new_Error result_error))
                            else (saved, None))))"

text \<open>The outer \<open>catch\<close> block, lines 242-263.\<close>

definition crawlCatch :: "js_error \<Rightarrow> Home \<Rightarrow> string list \<Rightarrow> Home" where
  "crawlCatch e st selectedUrls =
     emit \<lparr>title = ''Error'', description = err_message e, variant = Some Destructive\<rparr>
       (st\<lparr>stats := (stats st)\<lparr>errorsEncountered := errorsEncountered (stats st) + 1\<rparr>,
           discoveredPages := markSelected selectedUrls Error (discoveredPages st)\<rparr>)"

definition handleCrawlSelected ::
  "(nat \<Rightarrow> string) \<Rightarrow> (DiscoveredPage list \<Rightarrow> crawl_json fetch_result) \<Rightarrow>
   (string \<Rightarrow> utf16 \<Rightarrow> js_error option) \<Rightarrow> Home \<Rightarrow> string list \<Rightarrow> Home" where
  "handleCrawlSelected formatBytes backend saveMarkdown st selectedUrls =
     (let st0 = st\<lparr>isCrawling := True\<rparr>;
          st1 = (case crawlTry formatBytes backend saveMarkdown st0 selectedUrls of
                   (st', None) \<Rightarrow> st'
                 | (st', Some e) \<Rightarrow> crawlCatch e st' selectedUrls)
      in st1\<lparr>isCrawling := False\<rparr>)"

section \<open>The route \<open>POST /api/discover\<close> (src/unnamed/part_000)\<close>

text \<open>
  \<open>await request.json()\<close> destructured into \<open>url\<close> and \<open>depth\<close>: it throws (a body that is
  not JSON, or \<open>null\<close>), or gives the two fields, an absent one being \<open>JUndefined\<close>.
\<close>

datatype request_json = RequestThrows js_error | RequestBody jsval jsval

text \<open>Line 15; \<open>n || 3\<close> takes 3 for \<open>NaN\<close> and for 0.\<close>

definition validatedDepth :: "jsval \<Rightarrow> int" where
  "validatedDepth depth =
     min 5 (max 1 (case parseInt (String_js depth) of
                     None \<Rightarrow> 3
                   | Some n \<Rightarrow> if n = 0 then 3 else n))"

record backend_request =
  req_url :: jsval
  req_depth :: int

record route_response =
  http_status :: nat
  body :: discover_json

definition no_fields :: discover_json where
  "no_fields = \<lparr>error = None, details = None, errorType = None, pages = None, message = None\<rparr>"

text \<open>
  The handler: its response and the requests it sent to the backend, in order.
  \<open>NextResponse.json(b)\<close> with no status is a response of status 200.
\<close>

definition POST ::
  "request_json \<Rightarrow> (backend_request \<Rightarrow> discover_json fetch_result) \<Rightarrow> route_response \<times> backend_request list" where
  "POST request backend =
     (let caught = (\<lambda>e. \<lparr>http_status = 500,
                         body = \<lparr>error = Some (err_message e), details = Some (err_stack e),
                                 errorType = Some (err_name e), pages = Some [], message = None\<rparr>\<rparr>)
      in case request of
           RequestThrows e \<Rightarrow> (caught e, [])
         | RequestBody url0 depth0 \<Rightarrow>
             (let depth = (if depth0 = JUndefined then JNum 3 else depth0)
              in if \<not> truthy url0 then
                   (\<lparr>http_status = 400, body = no_fields\<lparr>error := Some ''URL is required''\<rparr>\<rparr>, [])
                 else
                   (let req = \<lparr>req_url = url0, req_depth = validatedDepth depth\<rparr>
                    in case backend req of
                         FetchThrows e \<Rightarrow> (caught e, [req])
                       | Response code js \<Rightarrow>
                           (case js of
                              Inl e \<Rightarrow> (caught e, [req])
                            | Inr data \<Rightarrow>
                                if \<not> ok code then
                                  (\<lparr>http_status = code,
                                    body = no_fields\<lparr>error := Some (or_default (error data) ''Failed to discover pages'')\<rparr>\<rparr>,
                                   [req])
                                else
                                  (\<lparr>http_status = 200,
                                    body = no_fields
                                      \<lparr>pages := Some (case pages data of None \<Rightarrow> [] | Some ps \<Rightarrow> ps),
                                       message := Some (or_default (message data)
                                         (case pages data of
                                            None \<Rightarrow> ''Found undefined pages''
                                          | Some ps \<Rightarrow>
                                              if length ps = 0 then ''No pages discovered''
                                              else ''Found '' @ show_nat (length ps) @ '' pages''))\<rparr>\<rparr>,
                                   [req])))))"

section \<open>Inputs of the concrete runs\<close>

text \<open>
  Two discovered pages: the first has a link that was never assigned a status and a link
  to the second page; the second has no list of links.
\<close>

definition page_a :: DiscoveredPage where
  "page_a = \<lparr>url = ''https://a/'', status = NotStarted,
             internalLinks = Some [\<lparr>href = ''https://b/'', link_status = None\<rparr>,
                                   \<lparr>href = ''https://c/'', link_status = Some Crawled\<rparr>]\<rparr>"

definition page_c :: DiscoveredPage where
  "page_c = \<lparr>url = ''https://c/'', status = Crawled, internalLinks = None\<rparr>"

definition home0 :: Home where
  "home0 = \<lparr>home_url = ''https://docs.example.com'', isProcessing = False,
            discoveredPages = [page_a, page_c], isCrawling = False, markdown = [],
            stats = \<lparr>subdomainsParsed = 2, pagesCrawled = 0, dataExtracted = ''0 KB'',
                     errorsEncountered = 0\<rparr>,
            toasts = []\<rparr>"

text \<open>The markdown \<open>hello\<close>, as code units.\<close>

definition hello :: utf16 where
  "hello = [0x68, 0x65, 0x6C, 0x6C, 0x6F]"

text \<open>
  The byte length of a string in UTF-8, the measure that the specification names for
  \<open>dataExtracted\<close>: one to three bytes for a code unit, four for a surrogate pair. The
  code does not compute it; it is here to be compared with \<open>.length\<close>.
\<close>

fun utf8_length :: "utf16 \<Rightarrow> nat" where
  "utf8_length (u # v # rest) =
     (if 0xD800 \<le> u \<and> u \<le> 0xDBFF \<and> 0xDC00 \<le> v \<and> v \<le> 0xDFFF then 4 + utf8_length rest
      else (if u < 0x80 then 1 else if u < 0x800 then 2 else 3) + utf8_length (v # rest))"
| "utf8_length [u] = (if u < 0x80 then 1 else if u < 0x800 then 2 else 3)"
| "utf8_length [] = 0"

section \<open>Properties of the status model\<close>

lemma markLink_href: "href (markLink selectedUrls newStatus link) = href link"
  by (simp add: markLink_def)

lemma markLink_status:
  "link_status (markLink selectedUrls newStatus link) =
     Some (if href link \<in> set selectedUrls then newStatus
           else (case link_status link of None \<Rightarrow> Pending | Some s \<Rightarrow> s))"
  by (simp add: markLink_def)

lemma markPage_url: "url (markPage selectedUrls newStatus page) = url page"
  by (simp add: markPage_def)

lemma markPage_status:
  "status (markPage selectedUrls newStatus page) =
     (if url page \<in> set selectedUrls then newStatus else status page)"
  by (simp add: markPage_def)

lemma markPage_links:
  "internalLinks (markPage selectedUrls newStatus page) =
     map_option (map (markLink selectedUrls newStatus)) (internalLinks page)"
  by (simp add: markPage_def)

lemma markSelected_length: "length (markSelected selectedUrls newStatus ps) = length ps"
  by (simp add: markSelected_def)

lemma markSelected_nth:
  "i < length ps \<Longrightarrow>
     markSelected selectedUrls newStatus ps ! i = markPage selectedUrls newStatus (ps ! i)"
  by (simp add: markSelected_def)

lemma markSelected_urls: "map url (markSelected selectedUrls newStatus ps) = map url ps"
  by (simp add: markSelected_def markPage_url)

text \<open>
  Claim C3, as amended. A marking pass keeps the pages, their order and their links. A page
  whose \<open>url\<close> is selected and a link whose \<open>href\<close> is selected get the new status; a
  page that is not selected keeps its status; a link that is not selected keeps its status
  when it has one, and gets \<open>pending\<close> when it has none. A page without a list of links
  stays without one.
\<close>

theorem markSelected_frame:
  "length (markSelected selectedUrls newStatus ps) = length ps \<and>
   (\<forall>i < length ps.
      let page = ps ! i; page' = markSelected selectedUrls newStatus ps ! i in
        url page' = url page \<and>
        (url page \<in> set selectedUrls \<longrightarrow> status page' = newStatus) \<and>
        (url page \<notin> set selectedUrls \<longrightarrow> status page' = status page) \<and>
        (case internalLinks page of
           None \<Rightarrow> internalLinks page' = None
         | Some links \<Rightarrow>
             (\<exists>links'. internalLinks page' = Some links' \<and> length links' = length links \<and>
                (\<forall>j < length links.
                   href (links' ! j) = href (links ! j) \<and>
                   (href (links ! j) \<in> set selectedUrls \<longrightarrow>
                      link_status (links' ! j) = Some newStatus) \<and>
                   (href (links ! j) \<notin> set selectedUrls \<longrightarrow> link_status (links ! j) \<noteq> None \<longrightarrow>
                      link_status (links' ! j) = link_status (links ! j)) \<and>
                   (href (links ! j) \<notin> set selectedUrls \<longrightarrow> link_status (links ! j) = None \<longrightarrow>
                      link_status (links' ! j) = Some Pending)))))"
proof (intro conjI allI impI)
  show "length (markSelected selectedUrls newStatus ps) = length ps"
    by (rule markSelected_length)
next
  fix i assume i: "i < length ps"
  have nth: "markSelected selectedUrls newStatus ps ! i = markPage selectedUrls newStatus (ps ! i)"
    using i by (rule markSelected_nth)
  show "let page = ps ! i; page' = markSelected selectedUrls newStatus ps ! i in
        url page' = url page \<and>
        (url page \<in> set selectedUrls \<longrightarrow> status page' = newStatus) \<and>
        (url page \<notin> set selectedUrls \<longrightarrow> status page' = status page) \<and>
        (case internalLinks page of
           None \<Rightarrow> internalLinks page' = None
         | Some links \<Rightarrow>
             (\<exists>links'. internalLinks page' = Some links' \<and> length links' = length links \<and>
                (\<forall>j < length links.
                   href (links' ! j) = href (links ! j) \<and>
                   (href (links ! j) \<in> set selectedUrls \<longrightarrow>
                      link_status (links' ! j) = Some newStatus) \<and>
                   (href (links ! j) \<notin> set selectedUrls \<longrightarrow> link_status (links ! j) \<noteq> None \<longrightarrow>
                      link_status (links' ! j) = link_status (links ! j)) \<and>
                   (href (links ! j) \<notin> set selectedUrls \<longrightarrow> link_status (links ! j) = None \<longrightarrow>
                      link_status (links' ! j) = Some Pending))))"
    unfolding Let_def nth
    by (cases "internalLinks (ps ! i)")
       (auto simp: markPage_url markPage_status markPage_links markLink_href markLink_status)
qed

theorem markSelected_frame_witness:
  "status (markSelected [''https://a/''] Pending [page_a, page_c] ! 0) = Pending \<and>
   status (markSelected [''https://a/''] Pending [page_a, page_c] ! 1) = Crawled \<and>
   internalLinks (markSelected [''https://a/''] Pending [page_a, page_c] ! 1) = None"
  using markSelected_frame [of "[''https://a/'']" Pending "[page_a, page_c]"]
  by (simp add: page_a_def page_c_def Let_def All_less_Suc markSelected_def markPage_def)

text \<open>
  Claim C3 as stated fails: the selection holds only \<open>https://a/\<close>, and the link to
  \<open>https://b/\<close>, which had no status, has the status \<open>pending\<close> after the pass.
\<close>

theorem markSelected_untouched_counterexample:
  "''https://b/'' \<notin> set [''https://a/''] \<and>
   markSelected [''https://a/''] Crawled
     [\<lparr>url = ''https://a/'', status = NotStarted,
       internalLinks = Some [\<lparr>href = ''https://b/'', link_status = None\<rparr>]\<rparr>]
   = [\<lparr>url = ''https://a/'', status = Crawled,
       internalLinks = Some [\<lparr>href = ''https://b/'', link_status = Some Pending\<rparr>]\<rparr>]"
  by (simp add: markSelected_def markPage_def markLink_def)

text \<open>
  Claim C9. After a marking pass, with any of the statuses, every link of every page has
  a status; a link that had none and whose \<open>href\<close> is not selected has \<open>pending\<close>.
\<close>

theorem links_defined_after_marking:
  "(\<forall>page \<in> set (markSelected selectedUrls newStatus ps). \<forall>links.
      internalLinks page = Some links \<longrightarrow> (\<forall>link \<in> set links. link_status link \<noteq> None)) \<and>
   (\<forall>i < length ps. \<forall>links. internalLinks (ps ! i) = Some links \<longrightarrow>
      (\<exists>links'. internalLinks (markSelected selectedUrls newStatus ps ! i) = Some links' \<and>
         length links' = length links \<and>
         (\<forall>j < length links.
            link_status (links ! j) = None \<longrightarrow> href (links ! j) \<notin> set selectedUrls \<longrightarrow>
              link_status (links' ! j) = Some Pending)))"
  by (auto simp: markSelected_def markPage_links markLink_status)

theorem links_defined_after_marking_witness:
  "internalLinks (markSelected [''https://a/''] Error [page_a, page_c] ! 0) =
     Some [\<lparr>href = ''https://b/'', link_status = Some Pending\<rparr>,
           \<lparr>href = ''https://c/'', link_status = Some Crawled\<rparr>] \<and>
   ''https://b/'' \<notin> set [''https://a/''] \<and>
   link_status (the (internalLinks page_a) ! 0) = None"
  using links_defined_after_marking [of "[''https://a/'']" Error "[page_a, page_c]"]
  by (simp add: page_a_def page_c_def markSelected_def markPage_def markLink_def)

section \<open>Properties of the depth sent to the backend\<close>

lemma of_char_digit_char: "d < 10 \<Longrightarrow> (of_char (digit_char d) :: nat) = 48 + d"
  by (simp add: digit_char_def)

lemma digit_unit: "d < 10 \<Longrightarrow> unat (of_nat (of_char (digit_char d)) :: 16 word) = 48 + d"
proof -
  assume d: "d < 10"
  have "unat (of_nat (48 + d) :: 16 word) = (48 + d) mod 2 ^ LENGTH(16)"
    by (rule unat_of_nat)
  also have "\<dots> = 48 + d" using d by simp
  finally show ?thesis using d by (simp only: of_char_digit_char)
qed

lemma digitVal_digit: "d < 10 \<Longrightarrow> digitVal (of_nat (of_char (digit_char d))) = Some d"
  unfolding digitVal_def Let_def by (simp only: digit_unit) simp

lemma radixDigit_digit: "d < 10 \<Longrightarrow> radixDigit 10 (of_nat (of_char (digit_char d)))"
  by (simp only: radixDigit_def digitVal_digit) simp

lemma radixDigit_decimal: "radixDigit 10 c \<longleftrightarrow> 48 \<le> unat c \<and> unat c \<le> 57"
  by (auto simp: radixDigit_def digitVal_def Let_def)

lemma show_nat_digits: "c \<in> set (show_nat n) \<Longrightarrow> \<exists>d<10. c = digit_char d"
proof (induction n arbitrary: c rule: show_nat.induct)
  case (1 n)
  show ?case
  proof (cases "n < 10")
    case True
    with "1.prems" show ?thesis by (auto simp: show_nat.simps [of n])
  next
    case False
    with "1.prems" have "c \<in> set (show_nat (n div 10)) \<or> c = digit_char (n mod 10)"
      by (auto simp: show_nat.simps [of n])
    then show ?thesis
    proof
      assume "c \<in> set (show_nat (n div 10))"
      with False "1.IH" show ?thesis by blast
    next
      assume "c = digit_char (n mod 10)"
      moreover have "n mod 10 < 10" by simp
      ultimately show ?thesis by blast
    qed
  qed
qed

lemma ascii_show_nat_digits:
  "u \<in> set (ascii (show_nat n)) \<Longrightarrow> \<exists>d<10. u = of_nat (of_char (digit_char d))"
  by (auto simp: ascii_def dest: show_nat_digits)

lemma show_nat_not_Nil: "show_nat n \<noteq> []"
  by (subst show_nat.simps) simp

lemma ascii_show_nat_not_Nil: "ascii (show_nat n) \<noteq> []"
  by (simp add: ascii_def show_nat_not_Nil)

lemma numeralValue_snoc:
  "numeralValue R (Z @ [c]) = numeralValue R Z * R + (case digitVal c of None \<Rightarrow> 0 | Some v \<Rightarrow> v)"
  by (simp add: numeralValue_def)

lemma numeralValue_show_nat: "numeralValue 10 (ascii (show_nat n)) = n"
proof (induction n rule: show_nat.induct)
  case (1 n)
  show ?case
  proof (cases "n < 10")
    case True
    then have "numeralValue 10 [of_nat (of_char (digit_char n))] = n"
      by (simp add: numeralValue_def digitVal_digit)
    with True show ?thesis
      by (simp add: show_nat.simps [of n] ascii_def)
  next
    case False
    with "1.IH" have "numeralValue 10 (ascii (show_nat (n div 10))) = n div 10" by simp
    moreover have "ascii (show_nat n) =
        ascii (show_nat (n div 10)) @ [of_nat (of_char (digit_char (n mod 10)))]"
      using False by (simp add: show_nat.simps [of n] ascii_def)
    ultimately show ?thesis
      by (simp add: numeralValue_snoc digitVal_digit)
  qed
qed

lemma digit_unit_plain:
  assumes "d < 10"
  shows "\<not> isWhiteSpace (of_nat (of_char (digit_char d)))"
    and "(of_nat (of_char (digit_char d)) :: 16 word) \<noteq> 0x2D"
    and "(of_nat (of_char (digit_char d)) :: 16 word) \<noteq> 0x2B"
    and "(of_nat (of_char (digit_char d)) :: 16 word) \<noteq> 0x78"
    and "(of_nat (of_char (digit_char d)) :: 16 word) \<noteq> 0x58"
proof -
  let ?u = "of_nat (of_char (digit_char d)) :: 16 word"
  have k: "unat ?u = 48 + d" using assms by (rule digit_unit)
  have ne: "?u \<noteq> c" if "unat c < 48 \<or> 57 < unat c" for c
  proof
    assume "?u = c"
    then have "unat c = 48 + d" using k by simp
    with that assms show False by linarith
  qed
  show "\<not> isWhiteSpace ?u"
    unfolding isWhiteSpace_def word_le_nat_alt word_unat_eq_iff k using assms by simp
  show "?u \<noteq> 0x2D" by (rule ne) simp
  show "?u \<noteq> 0x2B" by (rule ne) simp
  show "?u \<noteq> 0x78" by (rule ne) simp
  show "?u \<noteq> 0x58" by (rule ne) simp
qed

lemma parseInt_digits:
  assumes "Z \<noteq> []" and "\<forall>c \<in> set Z. \<exists>d<10. c = of_nat (of_char (digit_char d))"
  shows "parseInt Z = Some (int (numeralValue 10 Z))"
    and "parseInt (0x2D # Z) = Some (- int (numeralValue 10 Z))"
proof -
  obtain c Z' where Z: "Z = c # Z'" using assms(1) by (cases Z) auto
  obtain d where d: "d < 10" "c = of_nat (of_char (digit_char d))" using assms(2) Z by auto
  have nohex: "take 2 Z \<noteq> [0x30, y]" if y: "y = 0x78 \<or> y = 0x58" for y
  proof
    assume "take 2 Z = [0x30, y]"
    then have "y \<in> set (take 2 Z)" by simp
    then have "y \<in> set Z" by (rule in_set_takeD)
    with assms(2) obtain e where e: "e < 10" "y = of_nat (of_char (digit_char e))" by auto
    from y show False
    proof
      assume "y = 0x78"
      with e(2) digit_unit_plain(4) [OF e(1)] show False by simp
    next
      assume "y = 0x58"
      with e(2) digit_unit_plain(5) [OF e(1)] show False by simp
    qed
  qed
  have hexF: "\<not> (take 2 Z = [0x30, 0x78] \<or> take 2 Z = [0x30, 0x58])"
    using nohex [of "0x78"] nohex [of "0x58"] by simp
  have tw: "takeWhile (radixDigit 10) Z = Z"
    using assms(2) by (auto simp: takeWhile_eq_all_conv radixDigit_digit)
  have hd: "\<not> isWhiteSpace (hd Z)" "hd Z \<noteq> 0x2D" "hd Z \<noteq> 0x2B"
    unfolding Z list.sel d(2) by (rule digit_unit_plain [OF d(1)])+
  have dw: "dropWhile isWhiteSpace Z = Z"
    using hd(1) by (simp add: Z)
  have ws: "dropWhile isWhiteSpace (0x2D # Z) = 0x2D # Z"
    by (simp add: isWhiteSpace_def)
  show "parseInt Z = Some (int (numeralValue 10 Z))"
    unfolding parseInt_def Let_def dw
    using hd(2,3) hexF assms(1) by (simp add: tw)
  show "parseInt (0x2D # Z) = Some (- int (numeralValue 10 Z))"
    unfolding parseInt_def Let_def ws
    using hexF assms(1) by (simp add: tw)
qed

lemma parseInt_show_int: "parseInt (ascii (show_int i)) = Some i"
proof (cases "i < 0")
  case True
  have "parseInt (0x2D # ascii (show_nat (nat (- i)))) =
          Some (- int (numeralValue 10 (ascii (show_nat (nat (- i))))))"
    by (rule parseInt_digits(2)) (auto simp: ascii_show_nat_not_Nil dest: ascii_show_nat_digits)
  moreover have "ascii (show_int i) = 0x2D # ascii (show_nat (nat (- i)))"
    using True by (simp add: show_int_def ascii_def)
  ultimately show ?thesis using True by (simp add: numeralValue_show_nat)
next
  case False
  have "parseInt (ascii (show_nat (nat i))) = Some (int (numeralValue 10 (ascii (show_nat (nat i)))))"
    by (rule parseInt_digits(1)) (auto simp: ascii_show_nat_not_Nil dest: ascii_show_nat_digits)
  with False show ?thesis by (simp add: show_int_def numeralValue_show_nat)
qed

lemma parseInt_no_leading_digit:
  assumes "S = dropWhile isWhiteSpace s"
    and "S1 = (if S \<noteq> [] \<and> (hd S = 0x2B \<or> hd S = 0x2D) then tl S else S)"
    and "S1 = [] \<or> hd S1 < 0x30 \<or> 0x39 < hd S1"
  shows "parseInt s = None"
proof (cases "S1 = []")
  case True
  then show ?thesis
    unfolding parseInt_def Let_def assms(1,2) [symmetric] by simp
next
  case False
  then obtain c rest where S1: "S1 = c # rest" by (cases S1) auto
  with assms(3) have c: "c < 0x30 \<or> 0x39 < c" by simp
  then have nd: "\<not> radixDigit 10 c"
    unfolding radixDigit_decimal word_less_nat_alt by auto
  from c have c0: "c \<noteq> 0x30" by auto
  show ?thesis
    unfolding parseInt_def Let_def assms(1,2) [symmetric]
    using c0 nd by (simp add: S1)
qed

lemma parseInt_not_numbers:
  "parseInt (String_js JUndefined) = None"
  "parseInt (String_js JNull) = None"
  "parseInt (String_js (JBool b)) = None"
proof -
  have u: "parseInt (ascii ''undefined'') = None"
    by (rule parseInt_no_leading_digit [OF refl refl]) (simp add: ascii_def isWhiteSpace_def)
  have n: "parseInt (ascii ''null'') = None"
    by (rule parseInt_no_leading_digit [OF refl refl]) (simp add: ascii_def isWhiteSpace_def)
  have t: "parseInt (ascii ''true'') = None"
    by (rule parseInt_no_leading_digit [OF refl refl]) (simp add: ascii_def isWhiteSpace_def)
  have f: "parseInt (ascii ''false'') = None"
    by (rule parseInt_no_leading_digit [OF refl refl]) (simp add: ascii_def isWhiteSpace_def)
  show "parseInt (String_js JUndefined) = None" using u by simp
  show "parseInt (String_js JNull) = None" using n by simp
  show "parseInt (String_js (JBool b)) = None" using t f by simp
qed

lemma validatedDepth_JNum:
  "validatedDepth (JNum w) = (if w = 0 then 3 else min 5 (max 1 (sint w)))"
  by (simp add: validatedDepth_def parseInt_show_int signed_eq_0_iff)

lemma validatedDepth_NaN: "parseInt (String_js depth) = None \<Longrightarrow> validatedDepth depth = 3"
  by (simp add: validatedDepth_def)

lemma validatedDepth_range: "1 \<le> validatedDepth depth \<and> validatedDepth depth \<le> 5"
  by (simp add: validatedDepth_def split: option.split)

section \<open>Properties of the crawl handler\<close>

lemma markSelected_hrefs:
  "map (\<lambda>page. map_option (map href) (internalLinks page)) (markSelected selectedUrls newStatus ps) =
   map (\<lambda>page. map_option (map href) (internalLinks page)) ps"
  by (simp add: markSelected_def markPage_links option.map_comp comp_def markLink_href)

lemma markSelected_selected_page:
  "page \<in> set (markSelected selectedUrls newStatus ps) \<Longrightarrow> url page \<in> set selectedUrls \<Longrightarrow>
     status page = newStatus"
  by (auto simp: markSelected_def markPage_url markPage_status)

lemma markSelected_selected_link:
  "page \<in> set (markSelected selectedUrls newStatus ps) \<Longrightarrow> internalLinks page = Some links \<Longrightarrow>
     link \<in> set links \<Longrightarrow> href link \<in> set selectedUrls \<Longrightarrow> link_status link = Some newStatus"
  by (auto simp: markSelected_def markPage_links markLink_href markLink_status)

lemma markSelected_links_defined:
  "page \<in> set (markSelected selectedUrls newStatus ps) \<Longrightarrow> internalLinks page = Some links \<Longrightarrow>
     link \<in> set links \<Longrightarrow> link_status link \<noteq> None"
  by (auto simp: markSelected_def markPage_links markLink_status)

lemma crawlTry_request_fails:
  assumes "backend (filter (\<lambda>page. url page \<in> set selectedUrls) (discoveredPages st)) = r"
    and "(\<exists>e. r = FetchThrows e) \<or> (\<exists>code js. r = Response code js \<and> \<not> ok code)"
  shows "\<exists>e. crawlTry formatBytes backend saveMarkdown st selectedUrls =
           (st\<lparr>discoveredPages := markSelected selectedUrls Pending (discoveredPages st)\<rparr>, Some e)"
  using assms by (auto simp: crawlTry_def Let_def split: sum.splits)

lemma handleCrawlSelected_thrown:
  assumes "crawlTry formatBytes backend saveMarkdown (st\<lparr>isCrawling := True\<rparr>) selectedUrls =
             (st\<lparr>isCrawling := True\<rparr>\<lparr>discoveredPages := markSelected selectedUrls Pending (discoveredPages st)\<rparr>, Some e)"
  shows "handleCrawlSelected formatBytes backend saveMarkdown st selectedUrls =
           st\<lparr>isCrawling := False,
              discoveredPages := markSelected selectedUrls Error (markSelected selectedUrls Pending (discoveredPages st)),
              stats := (stats st)\<lparr>errorsEncountered := errorsEncountered (stats st) + 1\<rparr>,
              toasts := toasts st @ [\<lparr>title = ''Error'', description = err_message e, variant = Some Destructive\<rparr>]\<rparr>"
  using assms by (simp add: handleCrawlSelected_def Let_def crawlCatch_def emit_def)

lemma handleCrawlSelected_pages:
  "\<exists>s ps. discoveredPages (handleCrawlSelected formatBytes backend saveMarkdown st selectedUrls) =
      markSelected selectedUrls s ps"
  by (auto simp: handleCrawlSelected_def crawlTry_def crawlPersist_def crawlCatch_def emit_def Let_def
           split: fetch_result.splits sum.splits option.splits)

text \<open>
  Claim C1. When the crawl request fails (the fetch rejects, or the response is not 2xx),
  the handler leaves the same pages with the same links, every page whose \<open>url\<close> is
  selected and every link whose \<open>href\<close> is selected has the status \<open>error\<close>,
  \<open>errorsEncountered\<close> is one more than before, exactly one toast was added and it is
  destructive, \<open>pagesCrawled\<close> is unchanged and the busy flag is cleared.
\<close>

theorem crawl_failure_marks_selection:
  assumes "backend (filter (\<lambda>page. url page \<in> set selectedUrls) (discoveredPages st)) = r"
    and "(\<exists>e. r = FetchThrows e) \<or> (\<exists>code js. r = Response code js \<and> \<not> ok code)"
  shows "let st' = handleCrawlSelected formatBytes backend saveMarkdown st selectedUrls in
     map url (discoveredPages st') = map url (discoveredPages st) \<and>
     map (\<lambda>page. map_option (map href) (internalLinks page)) (discoveredPages st') =
       map (\<lambda>page. map_option (map href) (internalLinks page)) (discoveredPages st) \<and>
     (\<forall>page \<in> set (discoveredPages st'). url page \<in> set selectedUrls \<longrightarrow> status page = Error) \<and>
     (\<forall>page \<in> set (discoveredPages st'). \<forall>links. internalLinks page = Some links \<longrightarrow>
        (\<forall>link \<in> set links. href link \<in> set selectedUrls \<longrightarrow> link_status link = Some Error)) \<and>
     errorsEncountered (stats st') = errorsEncountered (stats st) + 1 \<and>
     (\<exists>t. toasts st' = toasts st @ [t] \<and> variant t = Some Destructive) \<and>
     pagesCrawled (stats st') = pagesCrawled (stats st) \<and>
     isCrawling st' = False"
proof -
  let ?st0 = "st\<lparr>isCrawling := True\<rparr>"
  from assms have "backend (filter (\<lambda>page. url page \<in> set selectedUrls) (discoveredPages ?st0)) = r"
    by simp
  from crawlTry_request_fails [where backend = backend and st = ?st0 and selectedUrls = selectedUrls, OF this assms(2)]
  obtain e where "crawlTry formatBytes backend saveMarkdown ?st0 selectedUrls =
      (?st0\<lparr>discoveredPages := markSelected selectedUrls Pending (discoveredPages ?st0)\<rparr>, Some e)"
    by blast
  then have "crawlTry formatBytes backend saveMarkdown ?st0 selectedUrls =
      (?st0\<lparr>discoveredPages := markSelected selectedUrls Pending (discoveredPages st)\<rparr>, Some e)"
    by simp
  from handleCrawlSelected_thrown [OF this]
  have final: "handleCrawlSelected formatBytes backend saveMarkdown st selectedUrls =
           st\<lparr>isCrawling := False,
              discoveredPages := markSelected selectedUrls Error (markSelected selectedUrls Pending (discoveredPages st)),
              stats := (stats st)\<lparr>errorsEncountered := errorsEncountered (stats st) + 1\<rparr>,
              toasts := toasts st @ [\<lparr>title = ''Error'', description = err_message e, variant = Some Destructive\<rparr>]\<rparr>" .
  show ?thesis
    unfolding Let_def final
    by (auto simp: markSelected_urls markSelected_hrefs
             dest: markSelected_selected_page markSelected_selected_link)
qed

theorem crawl_failure_marks_selection_witness:
  "\<not> ok 500 \<and>
   map status (discoveredPages (handleCrawlSelected show_nat
      (\<lambda>payload. Response 500 (Inr \<lparr>crawl_markdown = None, crawl_error = Some ''boom''\<rparr>))
      (\<lambda>key content. None) home0 [''https://a/'', ''https://c/''])) = [Error, Error] \<and>
   errorsEncountered (stats (handleCrawlSelected show_nat
      (\<lambda>payload. Response 500 (Inr \<lparr>crawl_markdown = None, crawl_error = Some ''boom''\<rparr>))
      (\<lambda>key content. None) home0 [''https://a/'', ''https://c/''])) = 1"
  using crawl_failure_marks_selection
    [of "\<lambda>payload. Response 500 (Inr \<lparr>crawl_markdown = None, crawl_error = Some ''boom''\<rparr>)"
        "[''https://a/'', ''https://c/'']" home0
        "Response 500 (Inr \<lparr>crawl_markdown = None, crawl_error = Some ''boom''\<rparr>)"
        show_nat "\<lambda>key content. None"]
  by (simp add: ok_def Let_def home0_def page_a_def page_c_def handleCrawlSelected_def crawlTry_def
      crawlCatch_def emit_def new_Error_def or_default_def markSelected_def markPage_def markLink_def)

lemma utf8_length_ascii: "\<forall>u \<in> set md. u < 0x80 \<Longrightarrow> utf8_length md = length md"
proof (induction md rule: utf8_length.induct)
  case (1 u v rest)
  then have "u < 0x80" by simp
  then have "\<not> 0xD800 \<le> u" by (simp add: word_less_def word_le_def)
  with 1 show ?case by simp
qed simp_all

lemma length_filter_selected:
  assumes "distinct selectedUrls" and "distinct (map url ps)" and "set selectedUrls \<subseteq> url ` set ps"
  shows "length (filter (\<lambda>page. url page \<in> set selectedUrls) ps) = length selectedUrls"
proof -
  have "length (filter (\<lambda>page. url page \<in> set selectedUrls) ps) =
        length (filter (\<lambda>u. u \<in> set selectedUrls) (map url ps))"
    by (simp add: filter_map comp_def)
  also have "\<dots> = card (set (filter (\<lambda>u. u \<in> set selectedUrls) (map url ps)))"
    by (rule distinct_card [symmetric]) (rule distinct_filter [OF assms(2)])
  also have "set (filter (\<lambda>u. u \<in> set selectedUrls) (map url ps)) = set selectedUrls"
    using assms(3) by auto
  also have "card (set selectedUrls) = length selectedUrls"
    using assms(1) by (rule distinct_card)
  finally show ?thesis .
qed

lemma handleCrawlSelected_saved:
  assumes "backend (filter (\<lambda>page. url page \<in> set selectedUrls) (discoveredPages st)) = Response code (Inr data)"
    and "ok code"
    and "crawl_error data = None \<or> crawl_error data = Some []"
    and "saveMarkdown (home_url st) (case crawl_markdown data of None \<Rightarrow> [] | Some m \<Rightarrow> m) = None"
  shows "handleCrawlSelected formatBytes backend saveMarkdown st selectedUrls =
     st\<lparr>isCrawling := False,
        markdown := (case crawl_markdown data of None \<Rightarrow> [] | Some m \<Rightarrow> m),
        stats := (stats st)
          \<lparr>pagesCrawled := length (filter (\<lambda>page. url page \<in> set selectedUrls) (discoveredPages st)),
           dataExtracted := formatBytes (length (case crawl_markdown data of None \<Rightarrow> [] | Some m \<Rightarrow> m))\<rparr>,
        discoveredPages := markSelected selectedUrls Crawled (markSelected selectedUrls Pending (discoveredPages st)),
        toasts := toasts st @
          [\<lparr>title = ''Content Saved'',
            description = ''Crawled content has been saved and can be loaded again later'',
            variant = None\<rparr>,
           \<lparr>title = ''Crawling Complete'',
            description = ''All pages have been crawled and processed'',
            variant = None\<rparr>]\<rparr>"
  using assms
  by (auto simp: handleCrawlSelected_def crawlTry_def crawlPersist_def emit_def Let_def)

lemma handleCrawlSelected_save_failed:
  assumes "backend (filter (\<lambda>page. url page \<in> set selectedUrls) (discoveredPages st)) = Response code (Inr data)"
    and "ok code"
    and "crawl_error data = None \<or> crawl_error data = Some []"
    and "saveMarkdown (home_url st) (case crawl_markdown data of None \<Rightarrow> [] | Some m \<Rightarrow> m) = Some e"
  shows "handleCrawlSelected formatBytes backend saveMarkdown st selectedUrls =
     st\<lparr>isCrawling := False,
        discoveredPages := markSelected selectedUrls Pending (discoveredPages st),
        toasts := toasts st @
          [\<lparr>title = ''Error'',
            description = ''Failed to save content for later use'',
            variant = Some Destructive\<rparr>,
           \<lparr>title = ''Crawling Complete'',
            description = ''All pages have been crawled and processed'',
            variant = None\<rparr>]\<rparr>"
  using assms
  by (auto simp: handleCrawlSelected_def crawlTry_def crawlPersist_def emit_def Let_def)

text \<open>
  Claim C5, as amended. When the crawl succeeds overall (a 2xx response whose body has no
  error, and the markdown saved), \<open>pagesCrawled\<close> is the number of discovered pages whose
  \<open>url\<close> is selected, which is the size of the selection when the selection has no
  duplicates, no two pages share a \<open>url\<close> and every selected URL is the \<open>url\<close> of a
  page; \<open>dataExtracted\<close> is \<open>formatBytes\<close> of the length of the markdown in code units,
  which is its byte length when every code unit is below \<open>0x80\<close>.
\<close>

theorem crawl_success_stats:
  assumes "backend (filter (\<lambda>page. url page \<in> set selectedUrls) (discoveredPages st)) = Response code (Inr data)"
    and "ok code"
    and "crawl_error data = None \<or> crawl_error data = Some []"
    and "saveMarkdown (home_url st) (case crawl_markdown data of None \<Rightarrow> [] | Some m \<Rightarrow> m) = None"
  shows "let st' = handleCrawlSelected formatBytes backend saveMarkdown st selectedUrls;
             md = (case crawl_markdown data of None \<Rightarrow> [] | Some m \<Rightarrow> m) in
     pagesCrawled (stats st') =
       length (filter (\<lambda>page. url page \<in> set selectedUrls) (discoveredPages st)) \<and>
     (distinct selectedUrls \<and> distinct (map url (discoveredPages st)) \<and>
      set selectedUrls \<subseteq> url ` set (discoveredPages st) \<longrightarrow>
        pagesCrawled (stats st') = length selectedUrls) \<and>
     dataExtracted (stats st') = formatBytes (length md) \<and>
     ((\<forall>u \<in> set md. u < 0x80) \<longrightarrow> dataExtracted (stats st') = formatBytes (utf8_length md)) \<and>
     markdown st' = md"
  unfolding Let_def handleCrawlSelected_saved
    [where backend = backend and st = st and selectedUrls = selectedUrls and saveMarkdown = saveMarkdown, OF assms]
  by (simp add: length_filter_selected utf8_length_ascii)

theorem crawl_success_stats_witness:
  "ok 200 \<and>
   pagesCrawled (stats (handleCrawlSelected show_nat
      (\<lambda>payload. Response 200 (Inr \<lparr>crawl_markdown = Some hello, crawl_error = None\<rparr>))
      (\<lambda>key content. None) home0 [''https://a/'', ''https://c/''])) = 2 \<and>
   dataExtracted (stats (handleCrawlSelected show_nat
      (\<lambda>payload. Response 200 (Inr \<lparr>crawl_markdown = Some hello, crawl_error = None\<rparr>))
      (\<lambda>key content. None) home0 [''https://a/'', ''https://c/''])) = show_nat (length hello) \<and>
   length hello = 5 \<and> utf8_length hello = 5"
  using crawl_success_stats
    [of "\<lambda>payload. Response 200 (Inr \<lparr>crawl_markdown = Some hello, crawl_error = None\<rparr>)"
        "[''https://a/'', ''https://c/'']" home0 200
        "\<lparr>crawl_markdown = Some hello, crawl_error = None\<rparr>" "\<lambda>key content. None" show_nat]
  by (simp add: ok_def Let_def home0_def page_a_def page_c_def hello_def handleCrawlSelected_def
      crawlTry_def crawlPersist_def emit_def)

text \<open>
  Claim C5 as stated fails: with the selection \<open>https://a/\<close>, \<open>https://b/\<close>, of which only
  the first is the \<open>url\<close> of a page, \<open>pagesCrawled\<close> is 1 and the selection has size 2;
  with the markdown of the single code unit \<open>0xE9\<close>, \<open>formatBytes\<close> receives 1 and the
  byte length is 2. The formatter passed here prints the number it receives.
\<close>

theorem crawl_success_stats_counterexample:
  "pagesCrawled (stats (handleCrawlSelected show_nat
      (\<lambda>payload. Response 200 (Inr \<lparr>crawl_markdown = Some [0xE9], crawl_error = None\<rparr>))
      (\<lambda>key content. None) home0 [''https://a/'', ''https://b/''])) = 1 \<and>
   length [''https://a/'', ''https://b/''] = 2 \<and>
   dataExtracted (stats (handleCrawlSelected show_nat
      (\<lambda>payload. Response 200 (Inr \<lparr>crawl_markdown = Some [0xE9], crawl_error = None\<rparr>))
      (\<lambda>key content. None) home0 [''https://a/'', ''https://b/''])) = show_nat 1 \<and>
   utf8_length [0xE9] = 2"
  by (simp add: handleCrawlSelected_def crawlTry_def crawlPersist_def emit_def Let_def ok_def
      home0_def page_a_def page_c_def)

text \<open>
  Claim C2, at the input where the code departs from it: the response is 200 with markdown
  \<open>hello\<close> and no error, and \<open>saveMarkdown\<close> throws. The selected page \<open>https://c/\<close> and
  the link to it are left \<open>pending\<close>, not \<open>crawled\<close>; the toasts are the persistence
  failure and then \<open>Crawling Complete\<close>; the stats are unchanged.
\<close>

theorem persistence_failure_leaves_pending:
  "discoveredPages (handleCrawlSelected formatBytes
      (\<lambda>payload. Response 200 (Inr \<lparr>crawl_markdown = Some hello, crawl_error = None\<rparr>))
      (\<lambda>key content. Some (new_Error ''QuotaExceededError'')) home0 [''https://c/'']) =
     [page_a\<lparr>internalLinks := Some [\<lparr>href = ''https://b/'', link_status = Some Pending\<rparr>,
                                     \<lparr>href = ''https://c/'', link_status = Some Pending\<rparr>]\<rparr>,
      page_c\<lparr>status := Pending\<rparr>] \<and>
   map title (toasts (handleCrawlSelected formatBytes
      (\<lambda>payload. Response 200 (Inr \<lparr>crawl_markdown = Some hello, crawl_error = None\<rparr>))
      (\<lambda>key content. Some (new_Error ''QuotaExceededError'')) home0 [''https://c/''])) =
     [''Error'', ''Crawling Complete''] \<and>
   stats (handleCrawlSelected formatBytes
      (\<lambda>payload. Response 200 (Inr \<lparr>crawl_markdown = Some hello, crawl_error = None\<rparr>))
      (\<lambda>key content. Some (new_Error ''QuotaExceededError'')) home0 [''https://c/'']) = stats home0"
  by (simp add: handleCrawlSelected_def crawlTry_def crawlPersist_def emit_def Let_def ok_def
      home0_def page_a_def page_c_def markSelected_def markPage_def markLink_def)

text \<open>
  Claim C8. When the response is 2xx and its body has a non-empty \<open>error\<close>, the handler
  ends in the same state as for a response of status 500 with that body: every selected
  page and link has the status \<open>error\<close>, \<open>errorsEncountered\<close> is one more, and the one
  toast added is destructive and carries the error text.
\<close>

theorem crawl_error_field_is_failure:
  assumes "backend (filter (\<lambda>page. url page \<in> set selectedUrls) (discoveredPages st)) = Response code (Inr data)"
    and "ok code"
    and "crawl_error data = Some msg" and "msg \<noteq> []"
  shows "let st' = handleCrawlSelected formatBytes backend saveMarkdown st selectedUrls in
     st' = handleCrawlSelected formatBytes (\<lambda>payload. Response 500 (Inr data)) saveMarkdown st selectedUrls \<and>
     map url (discoveredPages st') = map url (discoveredPages st) \<and>
     (\<forall>page \<in> set (discoveredPages st'). url page \<in> set selectedUrls \<longrightarrow> status page = Error) \<and>
     (\<forall>page \<in> set (discoveredPages st'). \<forall>links. internalLinks page = Some links \<longrightarrow>
        (\<forall>link \<in> set links. href link \<in> set selectedUrls \<longrightarrow> link_status link = Some Error)) \<and>
     errorsEncountered (stats st') = errorsEncountered (stats st) + 1 \<and>
     toasts st' = toasts st @ [\<lparr>title = ''Error'', description = msg, variant = Some Destructive\<rparr>]"
proof -
  let ?st0 = "st\<lparr>isCrawling := True\<rparr>"
  have thrown: "crawlTry formatBytes backend saveMarkdown ?st0 selectedUrls =
      (?st0\<lparr>discoveredPages := markSelected selectedUrls Pending (discoveredPages st)\<rparr>, Some (new_Error msg))"
    using assms by (simp add: crawlTry_def Let_def)
  have thrown500: "crawlTry formatBytes (\<lambda>payload. Response 500 (Inr data)) saveMarkdown ?st0 selectedUrls =
      (?st0\<lparr>discoveredPages := markSelected selectedUrls Pending (discoveredPages st)\<rparr>, Some (new_Error msg))"
    using assms(3,4) by (simp add: crawlTry_def Let_def ok_def or_default_def)
  note final = handleCrawlSelected_thrown [OF thrown] handleCrawlSelected_thrown [OF thrown500]
  show ?thesis
    unfolding Let_def final
    by (auto simp: markSelected_urls new_Error_def
             dest: markSelected_selected_page markSelected_selected_link)
qed

theorem crawl_error_field_is_failure_witness:
  "ok 200 \<and> ''rate limited'' \<noteq> [] \<and>
   map status (discoveredPages (handleCrawlSelected show_nat
      (\<lambda>payload. Response 200 (Inr \<lparr>crawl_markdown = Some hello, crawl_error = Some ''rate limited''\<rparr>))
      (\<lambda>key content. None) home0 [''https://a/'', ''https://c/''])) = [Error, Error] \<and>
   map description (toasts (handleCrawlSelected show_nat
      (\<lambda>payload. Response 200 (Inr \<lparr>crawl_markdown = Some hello, crawl_error = Some ''rate limited''\<rparr>))
      (\<lambda>key content. None) home0 [''https://a/'', ''https://c/''])) = [''rate limited'']"
  using crawl_error_field_is_failure
    [of "\<lambda>payload. Response 200 (Inr \<lparr>crawl_markdown = Some hello, crawl_error = Some ''rate limited''\<rparr>)"
        "[''https://a/'', ''https://c/'']" home0 200
        "\<lparr>crawl_markdown = Some hello, crawl_error = Some ''rate limited''\<rparr>" "''rate limited''"
        show_nat "\<lambda>key content. None"]
  by (simp add: ok_def Let_def home0_def page_a_def page_c_def handleCrawlSelected_def crawlTry_def
      crawlCatch_def emit_def new_Error_def or_default_def markSelected_def markPage_def markLink_def)

text \<open>Whatever the outcome of a crawl, it leaves every link with a status.\<close>

lemma crawl_leaves_links_defined:
  "\<forall>page \<in> set (discoveredPages (handleCrawlSelected formatBytes backend saveMarkdown st selectedUrls)).
     \<forall>links. internalLinks page = Some links \<longrightarrow> (\<forall>link \<in> set links. link_status link \<noteq> None)"
proof -
  obtain s ps where "discoveredPages (handleCrawlSelected formatBytes backend saveMarkdown st selectedUrls) =
      markSelected selectedUrls s ps"
    using handleCrawlSelected_pages by blast
  then show ?thesis by (auto dest: markSelected_links_defined)
qed

section \<open>Properties of the route\<close>

lemma POST_sends:
  "truthy url0 \<Longrightarrow>
     snd (POST (RequestBody url0 depth0) backend) =
       [\<lparr>req_url = url0, req_depth = validatedDepth (if depth0 = JUndefined then JNum 3 else depth0)\<rparr>]"
  by (simp add: POST_def Let_def split: fetch_result.split sum.split)

lemma POST_depth_range:
  "req \<in> set (snd (POST request backend)) \<Longrightarrow> 1 \<le> req_depth req \<and> req_depth req \<le> 5"
proof (cases request)
  case (RequestThrows e)
  assume "req \<in> set (snd (POST request backend))"
  with RequestThrows show ?thesis by (simp add: POST_def)
next
  case (RequestBody url0 depth0)
  assume r: "req \<in> set (snd (POST request backend))"
  show ?thesis
  proof (cases "truthy url0")
    case True
    from r show ?thesis
      unfolding RequestBody POST_sends [OF True] using validatedDepth_range by simp
  next
    case False
    with r RequestBody show ?thesis by (simp add: POST_def)
  qed
qed

text \<open>
  Claim C4, as amended. A request with a truthy \<open>url\<close> sends exactly one request to the
  backend, with that \<open>url\<close> and a depth between 1 and 5. For an integer depth other than 0,
  from \<open>-2^53\<close> to \<open>2^53 - 1\<close>, the depth sent is the depth clamped to the range from 1 to
  5. It is 3 for an absent depth, for \<open>null\<close>, for a boolean, and for a string (or another
  value, by its text) that does not begin, after white space and one sign, with a decimal
  digit.
\<close>

theorem discover_depth_sent:
  assumes "truthy url0"
  shows "\<exists>d. snd (POST (RequestBody url0 depth0) backend) = [\<lparr>req_url = url0, req_depth = d\<rparr>] \<and>
           1 \<le> d \<and> d \<le> 5 \<and>
           (\<forall>w. depth0 = JNum w \<and> w \<noteq> 0 \<longrightarrow> d = min 5 (max 1 (sint w))) \<and>
           (depth0 = JUndefined \<longrightarrow> d = 3) \<and>
           (depth0 = JNull \<longrightarrow> d = 3) \<and>
           (\<forall>b. depth0 = JBool b \<longrightarrow> d = 3) \<and>
           (\<forall>s. (depth0 = JStr s \<or> depth0 = JOther s) \<and>
                (let S = dropWhile isWhiteSpace s;
                     S1 = (if S \<noteq> [] \<and> (hd S = 0x2B \<or> hd S = 0x2D) then tl S else S)
                 in S1 = [] \<or> hd S1 < 0x30 \<or> 0x39 < hd S1) \<longrightarrow> d = 3)"
proof (intro exI conjI allI impI)
  let ?d = "validatedDepth (if depth0 = JUndefined then JNum 3 else depth0)"
  show "snd (POST (RequestBody url0 depth0) backend) = [\<lparr>req_url = url0, req_depth = ?d\<rparr>]"
    using assms by (rule POST_sends)
  show "1 \<le> ?d" and "?d \<le> 5"
    using validatedDepth_range by blast+
  show "?d = min 5 (max 1 (sint w))" if "depth0 = JNum w \<and> w \<noteq> 0" for w
    using that by (simp add: validatedDepth_JNum)
  show "?d = 3" if "depth0 = JUndefined"
    using that by (simp add: validatedDepth_JNum)
  show "?d = 3" if "depth0 = JNull"
    using that by (simp add: validatedDepth_NaN parseInt_not_numbers del: String_js.simps)
  show "?d = 3" if "depth0 = JBool b" for b
    using that by (simp add: validatedDepth_NaN parseInt_not_numbers del: String_js.simps)
  show "?d = 3"
    if s: "(depth0 = JStr s \<or> depth0 = JOther s) \<and>
           (let S = dropWhile isWhiteSpace s;
                S1 = (if S \<noteq> [] \<and> (hd S = 0x2B \<or> hd S = 0x2D) then tl S else S)
            in S1 = [] \<or> hd S1 < 0x30 \<or> 0x39 < hd S1)" for s
  proof -
    from s have "parseInt s = None"
      unfolding Let_def by (intro parseInt_no_leading_digit [OF refl refl]) simp
    moreover from s have "String_js depth0 = s" and "depth0 \<noteq> JUndefined" by auto
    ultimately show ?thesis by (simp add: validatedDepth_NaN)
  qed
qed

theorem discover_depth_sent_witness:
  "truthy (JStr (ascii ''https://docs.example.com'')) \<and> (7 :: 54 word) \<noteq> 0 \<and>
   snd (POST (RequestBody (JStr (ascii ''https://docs.example.com'')) (JNum 7))
          (\<lambda>req. Response 200 (Inr (no_fields\<lparr>pages := Some []\<rparr>)))) =
     [\<lparr>req_url = JStr (ascii ''https://docs.example.com''), req_depth = 5\<rparr>] \<and>
   snd (POST (RequestBody (JStr (ascii ''https://docs.example.com'')) (JStr (ascii '' deep'')))
          (\<lambda>req. Response 200 (Inr (no_fields\<lparr>pages := Some []\<rparr>)))) =
     [\<lparr>req_url = JStr (ascii ''https://docs.example.com''), req_depth = 3\<rparr>]"
  using discover_depth_sent [of "JStr (ascii ''https://docs.example.com'')" "JNum 7"
      "\<lambda>req. Response 200 (Inr (no_fields\<lparr>pages := Some []\<rparr>))"]
    discover_depth_sent [of "JStr (ascii ''https://docs.example.com'')" "JStr (ascii '' deep'')"
      "\<lambda>req. Response 200 (Inr (no_fields\<lparr>pages := Some []\<rparr>))"]
  by (auto simp: ascii_def isWhiteSpace_def)

text \<open>
  Claim C4 as stated fails: for the depth 0 the route sends 3, and 0 clamped to the range
  is 1; for the depth \<open>"4abc"\<close>, which is not a number, it sends 4; for the depth
  \<open>10^21\<close>, which \<open>String\<close> prints as \<open>1e+21\<close>, it sends 1.
\<close>

theorem discover_depth_counterexample:
  "snd (POST (RequestBody (JStr (ascii ''https://docs.example.com'')) (JNum 0))
          (\<lambda>req. Response 200 (Inr (no_fields\<lparr>pages := Some []\<rparr>)))) =
     [\<lparr>req_url = JStr (ascii ''https://docs.example.com''), req_depth = 3\<rparr>] \<and>
   min 5 (max 1 (0 :: int)) = 1 \<and>
   snd (POST (RequestBody (JStr (ascii ''https://docs.example.com'')) (JStr (ascii ''4abc'')))
          (\<lambda>req. Response 200 (Inr (no_fields\<lparr>pages := Some []\<rparr>)))) =
     [\<lparr>req_url = JStr (ascii ''https://docs.example.com''), req_depth = 4\<rparr>] \<and>
   snd (POST (RequestBody (JStr (ascii ''https://docs.example.com'')) (JOther (ascii ''1e+21'')))
          (\<lambda>req. Response 200 (Inr (no_fields\<lparr>pages := Some []\<rparr>)))) =
     [\<lparr>req_url = JStr (ascii ''https://docs.example.com''), req_depth = 1\<rparr>]"
proof -
  have a: "validatedDepth (JStr (ascii ''4abc'')) = 4" by code_simp
  have b: "validatedDepth (JOther (ascii ''1e+21'')) = 1" by code_simp
  have t: "truthy (JStr (ascii ''https://docs.example.com''))" by (simp add: ascii_def)
  show ?thesis by (simp add: POST_sends [OF t] validatedDepth_JNum a b)
qed

text \<open>
  Claim C7. When the backend answers with a 2xx status and an empty \<open>pages\<close> array, the
  route answers with status 200, the empty array, no \<open>error\<close> field, and the backend's
  message or else \<open>No pages discovered\<close>. When the request to the backend fails (the
  fetch rejects, the status is not 2xx, or the body cannot be read), the route answers
  with a status that is not 2xx, an \<open>error\<close> field and no message: the two outcomes are
  told apart.
\<close>

theorem discover_empty_result:
  assumes "truthy url0"
    and "backend \<lparr>req_url = url0,
                   req_depth = validatedDepth (if depth0 = JUndefined then JNum 3 else depth0)\<rparr> = r"
  shows "(\<forall>code data. r = Response code (Inr data) \<and> ok code \<and> pages data = Some [] \<longrightarrow>
            fst (POST (RequestBody url0 depth0) backend) =
              \<lparr>http_status = 200,
               body = \<lparr>error = None, details = None, errorType = None, pages = Some [],
                       message = Some (or_default (message data) ''No pages discovered'')\<rparr>\<rparr>) \<and>
         ((\<exists>e. r = FetchThrows e) \<or>
          (\<exists>code js. r = Response code js \<and> (\<not> ok code \<or> (\<exists>e. js = Inl e))) \<longrightarrow>
            \<not> ok (http_status (fst (POST (RequestBody url0 depth0) backend))) \<and>
            error (body (fst (POST (RequestBody url0 depth0) backend))) \<noteq> None \<and>
            message (body (fst (POST (RequestBody url0 depth0) backend))) = None)"
  using assms
  by (auto simp: POST_def Let_def no_fields_def ok_def split: sum.splits)

theorem discover_empty_result_witness:
  "truthy (JStr (ascii ''https://docs.example.com'')) \<and> ok 200 \<and> \<not> ok 503 \<and>
   fst (POST (RequestBody (JStr (ascii ''https://docs.example.com'')) JUndefined)
          (\<lambda>req. Response 200 (Inr (no_fields\<lparr>pages := Some []\<rparr>)))) =
     \<lparr>http_status = 200,
      body = \<lparr>error = None, details = None, errorType = None, pages = Some [],
              message = Some ''No pages discovered''\<rparr>\<rparr> \<and>
   fst (POST (RequestBody (JStr (ascii ''https://docs.example.com'')) JUndefined)
          (\<lambda>req. Response 503 (Inr (no_fields\<lparr>pages := Some []\<rparr>)))) =
     \<lparr>http_status = 503,
      body = \<lparr>error = Some ''Failed to discover pages'', details = None, errorType = None,
              pages = None, message = None\<rparr>\<rparr>"
  using discover_empty_result [of "JStr (ascii ''https://docs.example.com'')"
      "\<lambda>req. Response 200 (Inr (no_fields\<lparr>pages := Some []\<rparr>))" JUndefined
      "Response 200 (Inr (no_fields\<lparr>pages := Some []\<rparr>))"]
    discover_empty_result [of "JStr (ascii ''https://docs.example.com'')"
      "\<lambda>req. Response 503 (Inr (no_fields\<lparr>pages := Some []\<rparr>))" JUndefined
      "Response 503 (Inr (no_fields\<lparr>pages := Some []\<rparr>))"]
  by (simp add: ok_def no_fields_def or_default_def ascii_def POST_def Let_def)

text \<open>
  Claim C10. When the \<open>url\<close> of the request body is absent or falsy, the route answers
  with status 400 and the error \<open>URL is required\<close>, and sends nothing to the backend.
\<close>

theorem discover_requires_url:
  assumes "\<not> truthy url0"
  shows "POST (RequestBody url0 depth0) backend =
           (\<lparr>http_status = 400,
             body = \<lparr>error = Some ''URL is required'', details = None, errorType = None,
                     pages = None, message = None\<rparr>\<rparr>, [])"
  using assms by (simp add: POST_def Let_def no_fields_def)

theorem discover_requires_url_witness:
  "\<not> truthy JUndefined \<and> \<not> truthy (JStr []) \<and>
   POST (RequestBody JUndefined (JNum 2))
        (\<lambda>req. Response 200 (Inr (no_fields\<lparr>pages := Some [page_a]\<rparr>))) =
     (\<lparr>http_status = 400,
       body = \<lparr>error = Some ''URL is required'', details = None, errorType = None,
               pages = None, message = None\<rparr>\<rparr>, []) \<and>
   snd (POST (RequestBody (JStr []) JUndefined)
        (\<lambda>req. Response 200 (Inr (no_fields\<lparr>pages := Some [page_a]\<rparr>)))) = []"
  using discover_requires_url [of JUndefined "JNum 2"
          "\<lambda>req. Response 200 (Inr (no_fields\<lparr>pages := Some [page_a]\<rparr>))"]
        discover_requires_url [of "JStr []" JUndefined
          "\<lambda>req. Response 200 (Inr (no_fields\<lparr>pages := Some [page_a]\<rparr>))"]
  by simp

section \<open>Properties of the discovery handler\<close>

lemma submitCatch_pages: "discoveredPages (submitCatch e st) = discoveredPages st"
  by (simp add: submitCatch_def emit_def)

lemma submitCatch_stats: "stats (submitCatch e st) = stats st"
  by (simp add: submitCatch_def emit_def)

lemma submitCatch_markdown: "markdown (submitCatch e st) = markdown st"
  by (simp add: submitCatch_def emit_def)

lemma submitCatch_toasts:
  "\<exists>t. toasts (submitCatch e st) = toasts st @ [t] \<and> variant t = Some Destructive"
  by (simp add: submitCatch_def emit_def)

lemma submitTry_fails:
  assumes "api submittedUrl depth = r"
    and "(\<exists>e. r = FetchThrows e) \<or>
         (\<exists>code js. r = Response code js \<and> (\<not> ok code \<or> (\<exists>e. js = Inl e)))"
  shows "\<exists>st1 e pre. submitTry api st submittedUrl depth = (st1, Some e) \<and>
           discoveredPages st1 = discoveredPages st \<and> stats st1 = stats st \<and>
           markdown st1 = markdown st \<and>
           toasts st1 = toasts st @ pre \<and> (\<forall>t \<in> set pre. variant t = Some Destructive)"
  using assms
  by (auto simp: submitTry_def Let_def emit_def split: sum.splits)

text \<open>
  Claim C6, as amended. When the discovery request fails (the fetch rejects, the response
  is not 2xx, or its body cannot be read), no page is installed: the collection of
  discovered pages and the markdown are empty afterwards, the stats are unchanged, one or
  two toasts were added, all of them destructive, and the busy flag is cleared.
\<close>

theorem discovery_failure_clears_pages:
  assumes "validateUrl submittedUrl"
    and "api submittedUrl depth = r"
    and "(\<exists>e. r = FetchThrows e) \<or>
         (\<exists>code js. r = Response code js \<and> (\<not> ok code \<or> (\<exists>e. js = Inl e)))"
  shows "let st' = handleSubmit validateUrl api st submittedUrl depth in
     discoveredPages st' = [] \<and>
     (\<exists>ts. toasts st' = toasts st @ ts \<and> ts \<noteq> [] \<and> (\<forall>t \<in> set ts. variant t = Some Destructive)) \<and>
     stats st' = stats st \<and>
     markdown st' = [] \<and>
     isProcessing st' = False"
proof -
  let ?st0 = "st\<lparr>home_url := submittedUrl, isProcessing := True, markdown := [], discoveredPages := []\<rparr>"
  from submitTry_fails [where api = api and st = ?st0, OF assms(2,3)]
  obtain st1 e pre where tried: "submitTry api ?st0 submittedUrl depth = (st1, Some e)"
    and st1: "discoveredPages st1 = []" "stats st1 = stats st" "toasts st1 = toasts st @ pre"
      "markdown st1 = []"
    and pre: "\<forall>t \<in> set pre. variant t = Some Destructive"
    by auto
  obtain t where t: "toasts (submitCatch e st1) = toasts st1 @ [t]" and d: "variant t = Some Destructive"
    using submitCatch_toasts by blast
  have final: "handleSubmit validateUrl api st submittedUrl depth = (submitCatch e st1)\<lparr>isProcessing := False\<rparr>"
    using assms(1) tried by (simp add: handleSubmit_def Let_def)
  have "toasts (submitCatch e st1) = toasts st @ (pre @ [t])"
    using t st1(3) by simp
  moreover have "pre @ [t] \<noteq> []" by simp
  moreover have "\<forall>x \<in> set (pre @ [t]). variant x = Some Destructive"
    using pre d by simp
  ultimately have "\<exists>ts. toasts (submitCatch e st1) = toasts st @ ts \<and> ts \<noteq> [] \<and>
      (\<forall>t \<in> set ts. variant t = Some Destructive)"
    by blast
  then show ?thesis
    unfolding Let_def final by (simp add: submitCatch_pages submitCatch_stats submitCatch_markdown st1)
qed

theorem discovery_failure_clears_pages_witness:
  "discoveredPages (handleSubmit (\<lambda>u. True) (\<lambda>u d. Response 502 (Inr (no_fields\<lparr>error := Some ''Bad gateway''\<rparr>)))
      home0 ''https://docs.example.com'' 3) = [] \<and>
   \<not> ok 502 \<and>
   map variant (toasts (handleSubmit (\<lambda>u. True) (\<lambda>u d. Response 502 (Inr (no_fields\<lparr>error := Some ''Bad gateway''\<rparr>)))
      home0 ''https://docs.example.com'' 3)) = [Some Destructive, Some Destructive]"
  using discovery_failure_clears_pages [of "\<lambda>u. True" "''https://docs.example.com''"
      "\<lambda>u d. Response 502 (Inr (no_fields\<lparr>error := Some ''Bad gateway''\<rparr>))" 3
      "Response 502 (Inr (no_fields\<lparr>error := Some ''Bad gateway''\<rparr>))" home0]
  by (simp add: Let_def ok_def handleSubmit_def submitTry_def submitCatch_def emit_def home0_def
      no_fields_def or_default_def new_Error_def)

text \<open>
  Claim C6 as stated fails: the collection held two pages before the request was rejected
  and is empty afterwards.
\<close>

theorem discovery_failure_counterexample:
  "discoveredPages (handleSubmit (\<lambda>u. True) (\<lambda>u d. FetchThrows (JsError ''TypeError'' ''fetch failed'' []))
      home0 ''https://docs.example.com'' 3) = [] \<and>
   discoveredPages home0 = [page_a, page_c]"
  by (simp add: handleSubmit_def submitTry_def submitCatch_def emit_def home0_def Let_def)

end
